theory Spec2Isabelle
  imports Main
begin

section \<open>Time\<close>

text \<open>
  A \<^verbatim>\<open>datetime\<close> value is modelled as an integer number of microseconds (the resolution
  of Python's \<^verbatim>\<open>datetime\<close>), a \<^verbatim>\<open>timedelta\<close> as a difference of such values. Every
  reading of \<^verbatim>\<open>datetime.utcnow()\<close> is an explicit argument of the function that reads
  the clock. The range limits of Python's \<^verbatim>\<open>datetime\<close> (years 1 to 9999) are outside
  the model.
\<close>

type_synonym datetime = int

definition timedelta_seconds :: "int \<Rightarrow> int" where
  "timedelta_seconds n = n * 1000000"

definition timedelta_minutes :: "int \<Rightarrow> int" where
  "timedelta_minutes n = n * 60 * 1000000"

definition timedelta_days :: "int \<Rightarrow> int" where
  "timedelta_days n = n * 86400 * 1000000"

section \<open>RateLimiter\<close>

text \<open>
  The class \<^verbatim>\<open>RateLimiter\<close>: its fields as a record. \<^verbatim>\<open>attempts\<close> is a
  \<^verbatim>\<open>defaultdict(list)\<close>: a map whose lookup of a missing key yields the empty list.
\<close>

record 'k RateLimiter =
  max_attempts :: int
  window :: int
  attempts :: "'k \<rightharpoonup> datetime list"
  cleanup_task :: "unit option"

definition RateLimiter_init :: "int \<Rightarrow> int \<Rightarrow> 'k RateLimiter" where
  "RateLimiter_init m w =
     \<lparr>max_attempts = m, window = w, attempts = Map.empty, cleanup_task = None\<rparr>"

definition attempts_of :: "'k RateLimiter \<Rightarrow> 'k \<Rightarrow> datetime list" where
  "attempts_of s key = (case attempts s key of None \<Rightarrow> [] | Some xs \<Rightarrow> xs)"

text \<open>
  The first statement pair of \<^verbatim>\<open>check_rate_limit\<close>: the cutoff and the list
  comprehension that replaces the key's list by its entries newer than the cutoff.
\<close>

definition prune :: "'k RateLimiter \<Rightarrow> 'k \<Rightarrow> datetime \<Rightarrow> 'k RateLimiter" where
  "prune s key now =
     (let cutoff = now - timedelta_seconds (window s)
      in s\<lparr>attempts := (attempts s)(key \<mapsto>
             filter (\<lambda>attempt. attempt > cutoff) (attempts_of s key))\<rparr>)"

text \<open>
  \<^verbatim>\<open>check_rate_limit(key)\<close> with the clock reading \<open>now\<close>: prune, compare the length
  with \<^verbatim>\<open>max_attempts\<close>, and either return \<^verbatim>\<open>False\<close> or append \<open>now\<close> and return
  \<^verbatim>\<open>True\<close>. The limiter is mutated in place; the model returns it updated.
\<close>

definition check_rate_limit :: "'k RateLimiter \<Rightarrow> 'k \<Rightarrow> datetime \<Rightarrow> bool \<times> 'k RateLimiter" where
  "check_rate_limit s key now =
     (let s1 = prune s key now
      in if int (length (attempts_of s1 key)) \<ge> max_attempts s1 then (False, s1)
         else (True, s1\<lparr>attempts := (attempts s1)(key \<mapsto> attempts_of s1 key @ [now])\<rparr>))"

text \<open>
  A sequence of calls for one key at the given clock readings, in order: the results and
  the limiter after the last call.
\<close>

fun admit_seq :: "'k RateLimiter \<Rightarrow> 'k \<Rightarrow> datetime list \<Rightarrow> bool list \<times> 'k RateLimiter" where
  "admit_seq s key [] = ([], s)"
| "admit_seq s key (t # ts) =
     (case check_rate_limit s key t of
        (b, s1) \<Rightarrow> (case admit_seq s1 key ts of (bs, s2) \<Rightarrow> (b # bs, s2)))"

text \<open>
  The limiter after any sequence of calls, each with its key and its clock reading: the
  states a limiter created by \<^verbatim>\<open>RateLimiter(max_attempts, window)\<close> can reach.
\<close>

fun run_calls :: "'k RateLimiter \<Rightarrow> ('k \<times> datetime) list \<Rightarrow> 'k RateLimiter" where
  "run_calls s [] = s"
| "run_calls s ((key, t) # cs) = run_calls (snd (check_rate_limit s key t)) cs"

text \<open>
  The clock readings of a sequence of calls fall within one window: any two of them are
  less than \<^verbatim>\<open>window\<close> seconds apart (an entry exactly \<^verbatim>\<open>window\<close> seconds old is
  dropped by the pruning, so it is outside the window).
\<close>

definition within_window :: "int \<Rightarrow> datetime list \<Rightarrow> bool" where
  "within_window w ts = (\<forall>t \<in> set ts. \<forall>t' \<in> set ts. t - t' < timedelta_seconds w)"

section \<open>Values, exceptions and effects\<close>

text \<open>
  The claims of a token payload: a Python \<^verbatim>\<open>dict\<close> from claim names to values, kept as
  an association list in insertion order. A value is a string, a \<^verbatim>\<open>datetime\<close> (as
  the service writes \<^verbatim>\<open>exp\<close> and \<^verbatim>\<open>iat\<close>) or a number (as a decoder returns them).
\<close>

datatype claim = CStr string | CTime datetime | CInt int

type_synonym payload = "(string \<times> claim) list"

text \<open>The \<^verbatim>\<open>User\<close> model of \<^verbatim>\<open>app.models\<close>, with the attributes the service reads.\<close>

record User =
  user_id :: string
  user_email :: string
  user_name :: string
  password_hash :: string

text \<open>
  The exceptions that can travel through the module: the application's own classes
  (\<^verbatim>\<open>app.exceptions\<close>, each built from a message, an \<^verbatim>\<open>error_code\<close> and a
  \<^verbatim>\<open>trace_id\<close>), FastAPI's \<^verbatim>\<open>HTTPException\<close>, the errors of the token library that
  \<^verbatim>\<open>import jwt\<close> brings in (\<^verbatim>\<open>ExpiredSignatureError\<close>, and \<^verbatim>\<open>InvalidTokenError\<close>
  for every other error of the library), Python's \<^verbatim>\<open>KeyError\<close>, \<^verbatim>\<open>NameError\<close> and
  \<^verbatim>\<open>AttributeError\<close> (with the name that was looked up), and any other exception a
  collaborator may raise. The classes are taken to be unrelated by inheritance, except
  that all are \<^verbatim>\<open>Exception\<close>s.
\<close>

datatype exn =
    AuthenticationError string string string
  | AuthorizationError string string string
  | UserNotFoundException string string string
  | HTTPException int string
  | ExpiredSignatureError
  | InvalidTokenError string
  | KeyError string
  | NameError string
  | AttributeError string
  | OtherException string

datatype log_level = INFO | WARNING | ERROR

datatype log_value = LStr string | LNone | LExn exn

text \<open>
  What a call does beyond returning: the calls to the collaborators and the log records,
  in the order they happen. \<open>LExn e\<close> in a log record stands for \<^verbatim>\<open>str(e)\<close>.
\<close>

datatype effect =
    RateLimitCheck "string option"
  | StoreFetch string
  | PasswordCheck
  | TokenEncode payload
  | TokenDecode string
  | LogRecord log_level string "(string \<times> log_value) list"

type_synonym 'a io = "effect list \<times> (exn + 'a)"

definition io_return :: "'a \<Rightarrow> 'a io" where
  "io_return x = ([], Inr x)"

definition io_raise :: "exn \<Rightarrow> 'a io" where
  "io_raise e = ([], Inl e)"

definition io_bind :: "'a io \<Rightarrow> ('a \<Rightarrow> 'b io) \<Rightarrow> 'b io" where
  "io_bind m f =
     (case m of
        (es, Inl e) \<Rightarrow> (es, Inl e)
      | (es, Inr x) \<Rightarrow> (case f x of (es', r) \<Rightarrow> (es @ es', r)))"

text \<open>A call to a collaborator: the call is recorded; its value or its exception is the result.\<close>

definition io_call :: "effect \<Rightarrow> exn + 'a \<Rightarrow> 'a io" where
  "io_call ev r = ([ev], r)"

definition io_log :: "log_level \<Rightarrow> string \<Rightarrow> (string \<times> log_value) list \<Rightarrow> unit io" where
  "io_log level msg extra = ([LogRecord level msg extra], Inr ())"

text \<open>
  \<^verbatim>\<open>try: ... except ...\<close>: the handler gives \<open>None\<close> for an exception that no
  \<^verbatim>\<open>except\<close> clause matches, which then propagates.
\<close>

definition try_except :: "'a io \<Rightarrow> (exn \<Rightarrow> 'a io option) \<Rightarrow> 'a io" where
  "try_except m h =
     (case m of
        (es, Inl e) \<Rightarrow>
          (case h e of None \<Rightarrow> (es, Inl e) | Some (es', r) \<Rightarrow> (es @ es', r))
      | (es, Inr x) \<Rightarrow> (es, Inr x))"

section \<open>Collaborators\<close>

text \<open>
  What the module calls and does not define, as parameters: the user store
  (\<^verbatim>\<open>User.get_by_email\<close>, \<open>None\<close> when no user has the email), \<^verbatim>\<open>bcrypt.checkpw\<close> on
  the UTF-8 encodings of its two arguments, the token library's \<^verbatim>\<open>jwt.encode(payload, key,
  algorithm)\<close> and \<^verbatim>\<open>jwt.decode(token, key, algorithms)\<close> (signature and expiry are
  checked inside \<^verbatim>\<open>jwt.decode\<close>, at the time of the call), and
  \<^verbatim>\<open>settings.JWT_SECRET_KEY\<close>. Each call returns a value or raises.
\<close>

record env =
  get_by_email :: "string \<Rightarrow> exn + User option"
  checkpw :: "string \<Rightarrow> string \<Rightarrow> exn + bool"
  jwt_encode :: "payload \<Rightarrow> string \<Rightarrow> string \<Rightarrow> exn + string"
  jwt_decode :: "string \<Rightarrow> string \<Rightarrow> string list \<Rightarrow> exn + payload"
  JWT_SECRET_KEY :: string

section \<open>AuthService\<close>

record AuthService =
  jwt_secret :: string
  jwt_algorithm :: string
  access_token_expire_minutes :: int
  refresh_token_expire_days :: int

definition AuthService_init :: "env \<Rightarrow> AuthService" where
  "AuthService_init env =
     \<lparr>jwt_secret = JWT_SECRET_KEY env, jwt_algorithm = ''HS256'',
      access_token_expire_minutes = 60, refresh_token_expire_days = 7\<rparr>"

text \<open>
  The message of both \<^verbatim>\<open>AuthenticationError\<close>s of \<^verbatim>\<open>authenticate_user\<close> (the same
  literal at both places): \<^verbatim>\<open>ID\<close> followed by Japanese text, ``the ID or the password is
  not correct'', here as the bytes of its UTF-8 encoding.
\<close>

definition INVALID_CREDENTIALS_MESSAGE :: string where
  "INVALID_CREDENTIALS_MESSAGE = ''ID'' @ map char_of
     [0xE3, 0x81, 0xBE, 0xE3, 0x81, 0x9F, 0xE3, 0x81, 0xAF, 0xE3, 0x83, 0x91, 0xE3, 0x82, 0xB9,
      0xE3, 0x83, 0xAF, 0xE3, 0x83, 0xBC, 0xE3, 0x83, 0x89, 0xE3, 0x81, 0x8C, 0xE6, 0xAD, 0xA3,
      0xE3, 0x81, 0x97, 0xE3, 0x81, 0x8F, 0xE3, 0x81, 0x82, 0xE3, 0x82, 0x8A, 0xE3, 0x81, 0xBE,
      0xE3, 0x81, 0x9B, 0xE3, 0x82, 0x93 :: nat]"

definition get_user_by_email :: "env \<Rightarrow> string \<Rightarrow> string \<Rightarrow> User io" where
  "get_user_by_email env email trace_id =
     io_bind (io_call (StoreFetch email) (get_by_email env email)) (\<lambda>user.
       case user of
         None \<Rightarrow> io_raise (UserNotFoundException ''User not found'' ''USER_001'' trace_id)
       | Some u \<Rightarrow> io_return u)"

definition verify_password :: "env \<Rightarrow> string \<Rightarrow> string \<Rightarrow> bool io" where
  "verify_password env plain_password hashed_password =
     io_call PasswordCheck (checkpw env plain_password hashed_password)"

text \<open>
  The payload of an access token. The dictionary display reads the clock twice, first for
  \<^verbatim>\<open>exp\<close>, then for \<^verbatim>\<open>iat\<close>: \<open>now_exp\<close> and \<open>now_iat\<close> are the two readings.
\<close>

definition access_payload :: "AuthService \<Rightarrow> string \<Rightarrow> datetime \<Rightarrow> datetime \<Rightarrow> payload" where
  "access_payload svc uid now_exp now_iat =
     [(''sub'', CStr uid),
      (''exp'', CTime (now_exp + timedelta_minutes (access_token_expire_minutes svc))),
      (''iat'', CTime now_iat),
      (''type'', CStr ''access'')]"

definition create_access_token ::
  "env \<Rightarrow> AuthService \<Rightarrow> string \<Rightarrow> datetime \<Rightarrow> datetime \<Rightarrow> string io" where
  "create_access_token env svc uid now_exp now_iat =
     (let payload = access_payload svc uid now_exp now_iat
      in io_call (TokenEncode payload)
           (jwt_encode env payload (jwt_secret svc) (jwt_algorithm svc)))"

text \<open>
  The payload of a refresh token; \<open>jti\<close> is what \<^verbatim>\<open>secrets.token_urlsafe(32)\<close> returned
  at this call.
\<close>

definition refresh_payload ::
  "AuthService \<Rightarrow> string \<Rightarrow> datetime \<Rightarrow> datetime \<Rightarrow> string \<Rightarrow> payload" where
  "refresh_payload svc uid now_exp now_iat jti =
     [(''sub'', CStr uid),
      (''exp'', CTime (now_exp + timedelta_days (refresh_token_expire_days svc))),
      (''iat'', CTime now_iat),
      (''type'', CStr ''refresh''),
      (''jti'', CStr jti)]"

definition create_refresh_token ::
  "env \<Rightarrow> AuthService \<Rightarrow> string \<Rightarrow> datetime \<Rightarrow> datetime \<Rightarrow> string \<Rightarrow> string io" where
  "create_refresh_token env svc uid now_exp now_iat jti =
     (let payload = refresh_payload svc uid now_exp now_iat jti
      in io_call (TokenEncode payload)
           (jwt_encode env payload (jwt_secret svc) (jwt_algorithm svc)))"

text \<open>The success envelope of \<^verbatim>\<open>authenticate_user\<close>; its \<^verbatim>\<open>error\<close> entry is \<^verbatim>\<open>None\<close>.\<close>

record LoginResponse =
  data_user_id :: string
  data_user_email :: string
  data_user_name :: string
  data_access_token :: string
  data_refresh_token :: string
  data_token_type :: string
  meta_trace_id :: string
  meta_timestamp :: datetime

text \<open>
  The body of the \<^verbatim>\<open>try\<close> block of \<^verbatim>\<open>authenticate_user\<close>. \<open>clk\<close> gives the successive
  clock readings of the call and \<open>jti\<close> the random identifier drawn for the refresh token.
\<close>

definition authenticate_user_body ::
  "env \<Rightarrow> AuthService \<Rightarrow> string \<Rightarrow> string \<Rightarrow> string \<Rightarrow> (nat \<Rightarrow> datetime) \<Rightarrow> string
     \<Rightarrow> LoginResponse io" where
  "authenticate_user_body env svc email password trace_id clk jti =
     io_bind (get_user_by_email env email trace_id) (\<lambda>user.
     io_bind (verify_password env password (password_hash user)) (\<lambda>ok.
       if \<not> ok then
         io_bind (io_log WARNING ''Authentication failed''
                    [(''trace_id'', LStr trace_id), (''user_id'', LStr (user_id user)),
                     (''error_type'', LStr ''invalid_credentials'')]) (\<lambda>_.
         io_raise (AuthenticationError INVALID_CREDENTIALS_MESSAGE ''AUTH_001'' trace_id))
       else
         io_bind (create_access_token env svc (user_id user) (clk 0) (clk 1)) (\<lambda>access_token.
         io_bind (create_refresh_token env svc (user_id user) (clk 2) (clk 3) jti)
           (\<lambda>refresh_token.
         io_bind (io_log INFO ''User authenticated successfully''
                    [(''trace_id'', LStr trace_id), (''user_id'', LStr (user_id user))]) (\<lambda>_.
         io_return
           \<lparr>data_user_id = user_id user, data_user_email = user_email user,
            data_user_name = user_name user, data_access_token = access_token,
            data_refresh_token = refresh_token, data_token_type = ''bearer'',
            meta_trace_id = trace_id, meta_timestamp = clk 4\<rparr>)))))"

text \<open>
  \<^verbatim>\<open>authenticate_user\<close>: the body under its two \<^verbatim>\<open>except\<close> clauses, in the order of
  the source. An \<^verbatim>\<open>AuthenticationError\<close> raised in the body is caught by
  \<^verbatim>\<open>except Exception\<close>, logged and raised again.
\<close>

definition authenticate_user ::
  "env \<Rightarrow> AuthService \<Rightarrow> string \<Rightarrow> string \<Rightarrow> string \<Rightarrow> (nat \<Rightarrow> datetime) \<Rightarrow> string
     \<Rightarrow> LoginResponse io" where
  "authenticate_user env svc email password trace_id clk jti =
     try_except (authenticate_user_body env svc email password trace_id clk jti) (\<lambda>e.
       case e of
         UserNotFoundException _ _ _ \<Rightarrow>
           Some (io_raise (AuthenticationError INVALID_CREDENTIALS_MESSAGE ''AUTH_001'' trace_id))
       | _ \<Rightarrow>
           Some (io_bind (io_log ERROR ''Unexpected error during authentication''
                            [(''trace_id'', LStr trace_id), (''error'', LExn e)]) (\<lambda>_.
                 io_raise e)))"

text \<open>
  \<^verbatim>\<open>verify_token\<close>: \<open>credentials\<close> is the token string \<^verbatim>\<open>credentials.credentials\<close>.
  The first \<^verbatim>\<open>except\<close> clause names \<^verbatim>\<open>jwt.ExpiredSignatureError\<close>. The second names
  \<^verbatim>\<open>jwt.JWTError\<close>, which the module \<^verbatim>\<open>jwt\<close> imported at the top of the file does not
  define: Python evaluates the expression of an \<^verbatim>\<open>except\<close> clause when an exception
  reaches it, so every exception of the \<^verbatim>\<open>try\<close> block other than
  \<^verbatim>\<open>ExpiredSignatureError\<close> (a library error, the \<^verbatim>\<open>AuthorizationError\<close> of the type
  check, the \<^verbatim>\<open>KeyError\<close> of \<^verbatim>\<open>payload["sub"]\<close>) ends in \<^verbatim>\<open>AttributeError\<close>, and the
  body of the second clause (\<^verbatim>\<open>AUTH_004\<close>) never runs.
\<close>

definition verify_token :: "env \<Rightarrow> AuthService \<Rightarrow> string \<Rightarrow> string \<Rightarrow> claim io" where
  "verify_token env svc credentials trace_id =
     try_except
       (io_bind (io_call (TokenDecode credentials)
                   (jwt_decode env credentials (jwt_secret svc) [jwt_algorithm svc])) (\<lambda>payload.
          if map_of payload ''type'' \<noteq> Some (CStr ''access'') then
            io_raise (AuthorizationError ''Invalid token type'' ''AUTH_002'' trace_id)
          else
            (case map_of payload ''sub'' of
               None \<Rightarrow> io_raise (KeyError ''sub'')
             | Some sub \<Rightarrow> io_return sub)))
       (\<lambda>e. case e of
          ExpiredSignatureError \<Rightarrow>
            Some (io_raise (AuthorizationError ''Token has expired'' ''AUTH_003'' trace_id))
        | _ \<Rightarrow> Some (io_raise (AttributeError ''JWTError'')))"

text \<open>
  \<^verbatim>\<open>verify_token\<close> with the literal \<^verbatim>\<open>"access"\<close> of its type comparison as the parameter
  \<open>expected\<close>, everything else as in the source: what a validation expecting another kind
  of token is in this module. \<^verbatim>\<open>verify_token\<close> is its instance at \<^verbatim>\<open>"access"\<close>.
\<close>

definition verify_token_expecting ::
  "env \<Rightarrow> AuthService \<Rightarrow> string \<Rightarrow> string \<Rightarrow> string \<Rightarrow> claim io" where
  "verify_token_expecting env svc expected credentials trace_id =
     try_except
       (io_bind (io_call (TokenDecode credentials)
                   (jwt_decode env credentials (jwt_secret svc) [jwt_algorithm svc])) (\<lambda>payload.
          if map_of payload ''type'' \<noteq> Some (CStr expected) then
            io_raise (AuthorizationError ''Invalid token type'' ''AUTH_002'' trace_id)
          else
            (case map_of payload ''sub'' of
               None \<Rightarrow> io_raise (KeyError ''sub'')
             | Some sub \<Rightarrow> io_return sub)))
       (\<lambda>e. case e of
          ExpiredSignatureError \<Rightarrow>
            Some (io_raise (AuthorizationError ''Token has expired'' ''AUTH_003'' trace_id))
        | _ \<Rightarrow> Some (io_raise (AttributeError ''JWTError'')))"

section \<open>The rate-limited login endpoint\<close>

text \<open>The module's limiter: \<^verbatim>\<open>RateLimiter(max_attempts=5, window=300)\<close>.\<close>

definition rate_limiter :: "string option RateLimiter" where
  "rate_limiter = RateLimiter_init 5 300"

text \<open>
  The keyword arguments of a call of \<^verbatim>\<open>login_endpoint\<close>. \<^verbatim>\<open>trace_id\<close> is \<open>None\<close> when it
  is left out or passed as \<^verbatim>\<open>None\<close>. For \<^verbatim>\<open>client_ip\<close> the wrapper looks into
  \<^verbatim>\<open>kwargs\<close>: \<open>None\<close> when the keyword is absent, \<open>Some None\<close> when \<^verbatim>\<open>None\<close> is passed.
\<close>

record login_kwargs =
  kw_email :: string
  kw_password :: string
  kw_trace_id :: "string option"
  kw_client_ip :: "string option option"

text \<open>
  The undecorated \<^verbatim>\<open>login_endpoint\<close>. The module does not import \<^verbatim>\<open>uuid\<close>, so the
  branch for a missing or empty \<^verbatim>\<open>trace_id\<close> raises \<^verbatim>\<open>NameError\<close>.
\<close>

definition login_endpoint_body ::
  "env \<Rightarrow> login_kwargs \<Rightarrow> (nat \<Rightarrow> datetime) \<Rightarrow> string \<Rightarrow> LoginResponse io" where
  "login_endpoint_body env kwargs clk jti =
     (case kw_trace_id kwargs of
        None \<Rightarrow> io_raise (NameError ''uuid'')
      | Some trace_id \<Rightarrow>
          if trace_id = [] then io_raise (NameError ''uuid'')
          else authenticate_user env (AuthService_init env) (kw_email kwargs)
                 (kw_password kwargs) trace_id clk jti)"

text \<open>
  \<^verbatim>\<open>login_endpoint\<close> as decorated by the limiter: the \<^verbatim>\<open>wrapper\<close> of
  \<^verbatim>\<open>RateLimiter.__call__\<close>. \<open>client_key\<close> is \<^verbatim>\<open>kwargs.get("client_ip", "unknown")\<close>;
  \<open>now\<close> is the clock reading of \<^verbatim>\<open>check_rate_limit\<close>.
\<close>

definition client_key :: "login_kwargs \<Rightarrow> string option" where
  "client_key kwargs = (case kw_client_ip kwargs of None \<Rightarrow> Some ''unknown'' | Some v \<Rightarrow> v)"

definition login_endpoint ::
  "string option RateLimiter \<Rightarrow> env \<Rightarrow> login_kwargs \<Rightarrow> datetime \<Rightarrow> (nat \<Rightarrow> datetime) \<Rightarrow> string
     \<Rightarrow> string option RateLimiter \<times> LoginResponse io" where
  "login_endpoint limiter env kwargs now clk jti =
     (let client_ip = client_key kwargs
      in case check_rate_limit limiter client_ip now of
           (allowed, limiter') \<Rightarrow>
             (limiter',
              io_bind (io_call (RateLimitCheck client_ip) (Inr allowed)) (\<lambda>ok.
                if \<not> ok then io_raise (HTTPException 429 ''Rate limit exceeded'')
                else login_endpoint_body env kwargs clk jti)))"

section \<open>The token library's round trip\<close>


section \<open>An example deployment\<close>

text \<open>
  One user, \<^verbatim>\<open>a@x.com\<close> with the hash of \<^verbatim>\<open>pw1\<close>, and stand-ins for the password
  hash and the token library, to run the service on concrete inputs.
\<close>

definition example_user :: User where
  "example_user =
     \<lparr>user_id = ''u1'', user_email = ''a@x.com'', user_name = ''A'',
      password_hash = ''H(pw1)''\<rparr>"

definition example_encode :: "payload \<Rightarrow> exn + string" where
  "example_encode p =
     (case (map_of p ''type'', map_of p ''sub'') of
        (Some (CStr t), Some (CStr s)) \<Rightarrow> Inr (t @ '':'' @ s)
      | _ \<Rightarrow> Inl (OtherException ''TypeError''))"

definition example_decode :: "string \<Rightarrow> exn + payload" where
  "example_decode tok =
     (if tok = ''access:u1'' then
        Inr [(''sub'', CStr ''u1''), (''exp'', CInt 3600), (''iat'', CInt 0),
             (''type'', CStr ''access'')]
      else if tok = ''refresh:u1'' then
        Inr [(''sub'', CStr ''u1''), (''exp'', CInt 604800), (''iat'', CInt 0),
             (''type'', CStr ''refresh''), (''jti'', CStr ''r4nd0m'')]
      else if tok = ''access:expired'' then Inl ExpiredSignatureError
      else if tok = ''access:nosub'' then
        Inr [(''exp'', CInt 3600), (''type'', CStr ''access'')]
      else Inl (InvalidTokenError ''Not enough segments''))"

definition example_env :: env where
  "example_env =
     \<lparr>get_by_email = (\<lambda>email. if email = ''a@x.com'' then Inr (Some example_user) else Inr None),
      checkpw = (\<lambda>plain hashed. Inr (hashed = ''H('' @ plain @ '')'')),
      jwt_encode = (\<lambda>p key alg. example_encode p),
      jwt_decode = (\<lambda>tok key algs. example_decode tok),
      JWT_SECRET_KEY = ''k3y''\<rparr>"

section \<open>Properties of the rate limiter\<close>

lemma attempts_of_upd [simp]:
  "attempts_of (s\<lparr>attempts := (attempts s)(key \<mapsto> xs)\<rparr>) key' =
     (if key' = key then xs else attempts_of s key')"
  by (simp add: attempts_of_def)

lemma prune_fields [simp]:
  "max_attempts (prune s key now) = max_attempts s"
  "window (prune s key now) = window s"
  by (simp_all add: prune_def Let_def)

lemma attempts_of_prune:
  "attempts_of (prune s key now) key' =
     (if key' = key
      then filter (\<lambda>a. a > now - timedelta_seconds (window s)) (attempts_of s key)
      else attempts_of s key')"
  by (simp add: prune_def Let_def)

lemma check_rate_limit_fields [simp]:
  "max_attempts (snd (check_rate_limit s key now)) = max_attempts s"
  "window (snd (check_rate_limit s key now)) = window s"
  by (simp_all add: check_rate_limit_def Let_def)

text \<open>
  Claim C6. Every call at clock reading \<open>now\<close> decides on the pruned list, the key's
  entries newer than \<open>now - window\<close>: the call returns \<^verbatim>\<open>True\<close> exactly when the pruned
  list has fewer than \<^verbatim>\<open>max_attempts\<close> entries, and the limiter it leaves differs from
  the one it found only at this key, which holds the pruned list, with \<open>now\<close> appended
  exactly when the call returns \<^verbatim>\<open>True\<close>. The pruned list holds no entry at or before
  the cutoff. When it has at least \<^verbatim>\<open>max_attempts\<close> entries the call returns
  \<^verbatim>\<open>False\<close>, nothing is appended and the key's list is the pruned list, of the same
  length.
\<close>

theorem check_rate_limit_prunes_then_decides:
  "(let pruned = filter (\<lambda>a. a > now - timedelta_seconds (window s)) (attempts_of s key) in
      check_rate_limit s key now =
        (int (length pruned) < max_attempts s,
         s\<lparr>attempts := (attempts s)(key \<mapsto>
              (if int (length pruned) < max_attempts s then pruned @ [now] else pruned))\<rparr>) \<and>
      (\<forall>a \<in> set pruned. \<not> a \<le> now - timedelta_seconds (window s)) \<and>
      (max_attempts s \<le> int (length pruned) \<longrightarrow>
         \<not> fst (check_rate_limit s key now) \<and>
         attempts_of (snd (check_rate_limit s key now)) key = pruned \<and>
         length (attempts_of (snd (check_rate_limit s key now)) key) = length pruned) \<and>
      (int (length pruned) < max_attempts s \<longrightarrow>
         fst (check_rate_limit s key now) \<and>
         attempts_of (snd (check_rate_limit s key now)) key = pruned @ [now]))"
  by (auto simp: check_rate_limit_def prune_def Let_def)

theorem check_rate_limit_prunes_then_decides_witness:
  "check_rate_limit
     \<lparr>max_attempts = 2, window = 10,
      attempts = [''ip'' \<mapsto> [0, 5000000, 12000000]], cleanup_task = None\<rparr> ''ip'' 13000000 =
     (False, \<lparr>max_attempts = 2, window = 10,
      attempts = [''ip'' \<mapsto> [5000000, 12000000]], cleanup_task = None\<rparr>) \<and>
   check_rate_limit
     \<lparr>max_attempts = 3, window = 10,
      attempts = [''ip'' \<mapsto> [0, 5000000, 12000000]], cleanup_task = None\<rparr> ''ip'' 13000000 =
     (True, \<lparr>max_attempts = 3, window = 10,
      attempts = [''ip'' \<mapsto> [5000000, 12000000, 13000000]], cleanup_task = None\<rparr>)"
  using check_rate_limit_prunes_then_decides
      [of 13000000 "\<lparr>max_attempts = 2, window = 10,
        attempts = [''ip'' \<mapsto> [0, 5000000, 12000000]], cleanup_task = None\<rparr>" "''ip''"]
    check_rate_limit_prunes_then_decides
      [of 13000000 "\<lparr>max_attempts = 3, window = 10,
        attempts = [''ip'' \<mapsto> [0, 5000000, 12000000]], cleanup_task = None\<rparr>" "''ip''"]
  by (simp add: attempts_of_def timedelta_seconds_def Let_def)

lemma check_rate_limit_no_prune:
  assumes "\<forall>a \<in> set (attempts_of s key). now - a < timedelta_seconds (window s)"
  shows "check_rate_limit s key now =
     (if int (length (attempts_of s key)) \<ge> max_attempts s
      then (False, s\<lparr>attempts := (attempts s)(key \<mapsto> attempts_of s key)\<rparr>)
      else (True, s\<lparr>attempts := (attempts s)(key \<mapsto> attempts_of s key @ [now])\<rparr>))"
proof -
  have "filter (\<lambda>a. a > now - timedelta_seconds (window s)) (attempts_of s key) = attempts_of s key"
    using assms by (auto simp: filter_id_conv)
  then show ?thesis
    by (simp add: check_rate_limit_def prune_def Let_def)
qed

lemma admit_seq_results:
  assumes "\<forall>a \<in> set (attempts_of s key) \<union> set ts. \<forall>t \<in> set ts. t - a < timedelta_seconds (window s)"
  shows "fst (admit_seq s key ts) =
           map (\<lambda>i. int (length (attempts_of s key)) + int i < max_attempts s) [0..<length ts]"
  using assms
proof (induction ts arbitrary: s)
  case Nil
  then show ?case by simp
next
  case (Cons t ts)
  have np: "\<forall>a \<in> set (attempts_of s key). t - a < timedelta_seconds (window s)"
    using Cons.prems by auto
  obtain b s1 where c: "check_rate_limit s key t = (b, s1)" by (cases "check_rate_limit s key t")
  have s1: "max_attempts s1 = max_attempts s" "window s1 = window s"
    using check_rate_limit_fields[of s key t] c by simp_all
  show ?case
  proof (cases "int (length (attempts_of s key)) \<ge> max_attempts s")
    case True
    then have b: "b = False" and a1: "attempts_of s1 key = attempts_of s key"
      using c check_rate_limit_no_prune[OF np] by auto
    have "\<forall>a \<in> set (attempts_of s1 key) \<union> set ts. \<forall>t \<in> set ts. t - a < timedelta_seconds (window s1)"
      using Cons.prems a1 s1 by auto
    from Cons.IH[OF this] have "fst (admit_seq s1 key ts) = map (\<lambda>i. False) [0..<length ts]"
      using True a1 s1 by (auto simp: )
    then show ?thesis using c b True
      by (auto simp: split_beta upt_rec[of 0] map_Suc_upt[symmetric] simp del: upt_Suc split: prod.splits)
  next
    case False
    then have b: "b = True" and a1: "attempts_of s1 key = attempts_of s key @ [t]"
      using c check_rate_limit_no_prune[OF np] by auto
    have "\<forall>a \<in> set (attempts_of s1 key) \<union> set ts. \<forall>t \<in> set ts. t - a < timedelta_seconds (window s1)"
      using Cons.prems a1 s1 by auto
    from Cons.IH[OF this]
    have "fst (admit_seq s1 key ts) =
        map (\<lambda>i. int (length (attempts_of s key)) + int (Suc i) < max_attempts s) [0..<length ts]"
      using a1 s1 by (simp add: algebra_simps)
    then show ?thesis using c b False
      by (auto simp: split_beta upt_rec[of 0] map_Suc_upt[symmetric] simp del: upt_Suc split: prod.splits)
  qed
qed


lemma check_rate_limit_all_stale:
  assumes "\<forall>a \<in> set (attempts_of s key). a \<le> now - timedelta_seconds (window s)"
  shows "fst (check_rate_limit s key now) = (0 < max_attempts s)"
    and "attempts_of (snd (check_rate_limit s key now)) key = (if 0 < max_attempts s then [now] else [])"
proof -
  have "filter (\<lambda>a. a > now - timedelta_seconds (window s)) (attempts_of s key) = []"
    using assms by (auto simp: filter_empty_conv)
  then show "fst (check_rate_limit s key now) = (0 < max_attempts s)"
    and "attempts_of (snd (check_rate_limit s key now)) key = (if 0 < max_attempts s then [now] else [])"
    by (auto simp: check_rate_limit_def prune_def Let_def)
qed

lemma admit_seq_results_stale:
  assumes stale: "\<forall>a \<in> set (attempts_of s key). \<forall>t \<in> set ts. a \<le> t - timedelta_seconds (window s)"
    and win: "within_window (window s) ts"
  shows "fst (admit_seq s key ts) = map (\<lambda>i. int i < max_attempts s) [0..<length ts]"
proof (cases ts)
  case Nil
  then show ?thesis by simp
next
  case (Cons t ts')
  obtain b s1 where c: "check_rate_limit s key t = (b, s1)" by (cases "check_rate_limit s key t")
  have st: "\<forall>a \<in> set (attempts_of s key). a \<le> t - timedelta_seconds (window s)"
    using stale Cons by simp
  have b: "b = (0 < max_attempts s)"
    and a1: "attempts_of s1 key = (if 0 < max_attempts s then [t] else [])"
    using check_rate_limit_all_stale[OF st] c by simp_all
  have s1: "max_attempts s1 = max_attempts s" "window s1 = window s"
    using check_rate_limit_fields[of s key t] c by simp_all
  have "\<forall>a \<in> set (attempts_of s1 key) \<union> set ts'. \<forall>t \<in> set ts'. t - a < timedelta_seconds (window s1)"
    using win Cons a1 s1 by (auto simp: within_window_def)
  from admit_seq_results[OF this]
  have r: "fst (admit_seq s1 key ts') =
      map (\<lambda>i. int (length (attempts_of s1 key)) + int i < max_attempts s) [0..<length ts']"
    using s1 by simp
  have "fst (admit_seq s1 key ts') = map (\<lambda>i. int (Suc i) < max_attempts s) [0..<length ts']"
  proof (cases "0 < max_attempts s")
    case True
    then show ?thesis using r a1 by (simp add: algebra_simps)
  next
    case False
    then show ?thesis using r a1 by auto
  qed
  then show ?thesis using c b Cons
    by (auto simp: split_beta upt_rec[of 0] map_Suc_upt[symmetric] simp del: upt_Suc split: prod.splits)
qed

text \<open>
  Claim C2. Calls for one key whose clock readings fall within one window, made when no
  earlier attempt recorded for the key is still inside the window of any of them (the key
  is new, or all its entries are at or before every cutoff): when there are at most
  \<^verbatim>\<open>max_attempts\<close> calls, all return \<^verbatim>\<open>True\<close>; when there are \<^verbatim>\<open>max_attempts + 1\<close>,
  the first \<^verbatim>\<open>max_attempts\<close> return \<^verbatim>\<open>True\<close> and the last returns \<^verbatim>\<open>False\<close>.
\<close>

theorem admits_up_to_max_attempts_then_denies:
  assumes "\<forall>a \<in> set (attempts_of s key). \<forall>t \<in> set ts. a \<le> t - timedelta_seconds (window s)"
    and "within_window (window s) ts"
    and "0 \<le> max_attempts s"
  shows "(int (length ts) \<le> max_attempts s \<longrightarrow>
            fst (admit_seq s key ts) = replicate (length ts) True) \<and>
         (int (length ts) = max_attempts s + 1 \<longrightarrow>
            fst (admit_seq s key ts) = replicate (nat (max_attempts s)) True @ [False])"
proof -
  have r: "fst (admit_seq s key ts) = map (\<lambda>i. int i < max_attempts s) [0..<length ts]"
    using admit_seq_results_stale[OF assms(1,2)] .
  have "int (length ts) \<le> max_attempts s \<Longrightarrow>
          map (\<lambda>i. int i < max_attempts s) [0..<length ts] = replicate (length ts) True"
    by (auto simp: map_replicate_const[symmetric] simp del: map_replicate_const intro!: nth_equalityI)
  moreover have "int (length ts) = max_attempts s + 1 \<Longrightarrow>
          map (\<lambda>i. int i < max_attempts s) [0..<length ts] = replicate (nat (max_attempts s)) True @ [False]"
  proof -
    assume l: "int (length ts) = max_attempts s + 1"
    then have "length ts = Suc (nat (max_attempts s))" using assms(3) by linarith
    then show ?thesis
      by (auto intro!: nth_equalityI simp: nth_append)
  qed
  ultimately show ?thesis using r by simp
qed

theorem admits_up_to_max_attempts_then_denies_witness:
  "fst (admit_seq (RateLimiter_init 2 300) ''ip'' [0, 1000000]) = [True, True] \<and>
   fst (admit_seq (RateLimiter_init 2 300) ''ip'' [0, 299999999, 1000000]) = [True, True, False]"
  using admits_up_to_max_attempts_then_denies
      [of "RateLimiter_init 2 300" "''ip''" "[0, 1000000]"]
    admits_up_to_max_attempts_then_denies
      [of "RateLimiter_init 2 300" "''ip''" "[0, 299999999, 1000000]"]
  by (simp add: RateLimiter_init_def attempts_of_def within_window_def timedelta_seconds_def
      numeral_2_eq_2)

lemma run_calls_append: "run_calls s (cs @ cs') = run_calls (run_calls s cs) cs'"
  by (induction s cs rule: run_calls.induct) simp_all

lemma check_rate_limit_bounded:
  assumes "\<forall>k. int (length (attempts_of s k)) \<le> max 0 (max_attempts s)"
  shows "\<forall>k. int (length (attempts_of (snd (check_rate_limit s key now)) k)) \<le> max 0 (max_attempts s)"
proof
  fix k
  define xs where "xs = filter (\<lambda>a. a > now - timedelta_seconds (window s)) (attempts_of s key)"
  have f: "int (length xs) \<le> int (length (attempts_of s key))"
    by (simp add: xs_def)
  have p: "attempts_of (prune s key now) k = (if k = key then xs else attempts_of s k)"
    by (simp add: attempts_of_prune xs_def)
  show "int (length (attempts_of (snd (check_rate_limit s key now)) k)) \<le> max 0 (max_attempts s)"
  proof (cases "k = key")
    case True
    then show ?thesis
      using assms[rule_format, of key] f p
      by (auto simp: check_rate_limit_def Let_def)
  next
    case False
    then show ?thesis
      using assms[rule_format, of k] p
      by (auto simp: check_rate_limit_def Let_def)
  qed
qed

lemma run_calls_fields [simp]:
  "max_attempts (run_calls s cs) = max_attempts s" "window (run_calls s cs) = window s"
  by (induction s cs rule: run_calls.induct) simp_all

lemma run_calls_bounded:
  assumes "\<forall>k. int (length (attempts_of s k)) \<le> max 0 (max_attempts s)"
  shows "\<forall>k. int (length (attempts_of (run_calls s cs) k)) \<le> max 0 (max_attempts s)"
  using assms
proof (induction s cs rule: run_calls.induct)
  case (1 s)
  then show ?case by simp
next
  case (2 s key t cs)
  have "\<forall>k. int (length (attempts_of (snd (check_rate_limit s key t)) k))
          \<le> max 0 (max_attempts (snd (check_rate_limit s key t)))"
    using check_rate_limit_bounded[OF "2.prems"] by simp
  from "2.IH"[OF this] show ?case by simp
qed

lemma reachable_bounded:
  "int (length (attempts_of (run_calls (RateLimiter_init m w) cs) k)) \<le> max 0 m"
proof -
  have "\<forall>k. int (length (attempts_of (RateLimiter_init m w :: 'a RateLimiter) k))
          \<le> max 0 (max_attempts (RateLimiter_init m w :: 'a RateLimiter))"
    by (simp add: RateLimiter_init_def attempts_of_def)
  from run_calls_bounded[OF this, of cs] show ?thesis
    by (simp add: RateLimiter_init_def)
qed

text \<open>
  Claim C7. The window slides. Take a limiter reached from \<^verbatim>\<open>RateLimiter(m, w)\<close> by any
  calls, a call for the key that is denied, and any further calls after it. If \<open>first\<close> is
  then the first attempt recorded for the key, a call for the key at a clock reading at
  least \<open>w\<close> seconds after \<open>first\<close> is admitted.
\<close>

theorem admitted_again_after_window:
  assumes reach: "s = run_calls (RateLimiter_init m w) cs"
    and denied: "check_rate_limit s key t0 = (False, s')"
    and later: "s'' = run_calls s' cs'"
    and first: "attempts_of s'' key = first # rest"
    and wait: "t \<ge> first + timedelta_seconds w"
  shows "fst (check_rate_limit s'' key t)"
proof -
  have "s' = snd (check_rate_limit s key t0)" using denied by simp
  then have "s'' = run_calls (RateLimiter_init m w) (cs @ [(key, t0)] @ cs')"
    using reach later by (simp add: run_calls_append)
  then have b: "int (length (attempts_of s'' key)) \<le> max 0 m"
    and f: "max_attempts s'' = m" "window s'' = w"
    using reachable_bounded[of m w "cs @ [(key, t0)] @ cs'" key]
    by (simp_all add: RateLimiter_init_def)
  have "length (filter (\<lambda>a. a > t - timedelta_seconds w) (first # rest)) \<le> length rest"
    using wait by simp
  then show ?thesis
    using b f first by (auto simp: check_rate_limit_def Let_def attempts_of_prune)
qed

theorem admitted_again_after_window_witness:
  "check_rate_limit (run_calls (RateLimiter_init 2 10) [(''ip'', 0), (''ip'', 5000000)])
       ''ip'' 7000000 =
     (False, snd (check_rate_limit
        (run_calls (RateLimiter_init 2 10) [(''ip'', 0), (''ip'', 5000000)]) ''ip'' 7000000)) \<and>
   fst (check_rate_limit
     (snd (check_rate_limit
        (run_calls (RateLimiter_init 2 10) [(''ip'', 0), (''ip'', 5000000)]) ''ip'' 7000000))
     ''ip'' 10000000)"
proof -
  let ?s = "run_calls (RateLimiter_init 2 10) [(''ip'', 0::int), (''ip'', 5000000)]"
  let ?s' = "snd (check_rate_limit ?s ''ip'' 7000000)"
  have d: "check_rate_limit ?s ''ip'' 7000000 = (False, ?s')"
    by (simp add: check_rate_limit_def prune_def Let_def RateLimiter_init_def attempts_of_def
        timedelta_seconds_def)
  have l: "?s' = run_calls ?s' []" by simp
  have f: "attempts_of ?s' ''ip'' = 0 # [5000000]"
    by (simp add: check_rate_limit_def prune_def Let_def RateLimiter_init_def attempts_of_def
        timedelta_seconds_def)
  have w: "(10000000::int) \<ge> 0 + timedelta_seconds 10"
    by (simp add: timedelta_seconds_def)
  show ?thesis
    using d admitted_again_after_window [OF refl d l f w] by simp
qed

section \<open>Properties of the authentication service\<close>

lemmas io_defs = io_return_def io_raise_def io_bind_def io_call_def io_log_def try_except_def

text \<open>
  Claim C1. When the user store has no user for the email, and when it has one but
  \<^verbatim>\<open>bcrypt.checkpw\<close> returns \<^verbatim>\<open>False\<close> for the password, \<^verbatim>\<open>authenticate_user\<close> raises
  the same exception for the same \<^verbatim>\<open>trace_id\<close>: an \<^verbatim>\<open>AuthenticationError\<close> with the
  same message and the code \<^verbatim>\<open>AUTH_001\<close>, whatever the passwords, clock readings and
  random identifiers of the two calls. (The log records of the two calls differ; they are
  not returned to the caller.)
\<close>

theorem login_errors_indistinguishable:
  assumes "get_by_email env email1 = Inr None"
    and "get_by_email env email2 = Inr (Some u)"
    and "checkpw env password2 (password_hash u) = Inr False"
  shows "snd (authenticate_user env svc email1 password1 trace_id clk1 jti1) =
           Inl (AuthenticationError INVALID_CREDENTIALS_MESSAGE ''AUTH_001'' trace_id) \<and>
         snd (authenticate_user env svc email2 password2 trace_id clk2 jti2) =
           snd (authenticate_user env svc email1 password1 trace_id clk1 jti1)"
  using assms
  by (simp add: authenticate_user_def authenticate_user_body_def get_user_by_email_def
      verify_password_def io_defs)

theorem login_errors_indistinguishable_witness:
  "snd (authenticate_user example_env (AuthService_init example_env) ''missing@x.com'' ''pw1''
          ''t1'' (\<lambda>n. 0) ''j'') =
     Inl (AuthenticationError INVALID_CREDENTIALS_MESSAGE ''AUTH_001'' ''t1'') \<and>
   snd (authenticate_user example_env (AuthService_init example_env) ''a@x.com'' ''wrong''
          ''t1'' (\<lambda>n. 0) ''j'') =
     Inl (AuthenticationError INVALID_CREDENTIALS_MESSAGE ''AUTH_001'' ''t1'')"
  using login_errors_indistinguishable [of example_env "''missing@x.com''" "''a@x.com''"
      example_user "''wrong''" "AuthService_init example_env" "''pw1''" "''t1''" "\<lambda>n. 0" "''j''"
      "\<lambda>n. 0" "''j''"]
  by (simp add: example_env_def example_user_def)

text \<open>
  The example deployment on the success path: the right password gives the envelope with
  both tokens, after the fetch, the password check, the two encodings and the log record.
\<close>

lemma example_login_succeeds:
  "authenticate_user example_env (AuthService_init example_env) ''a@x.com'' ''pw1'' ''t1''
     (\<lambda>n. 0) ''j'' =
     ([StoreFetch ''a@x.com'', PasswordCheck,
       TokenEncode (access_payload (AuthService_init example_env) ''u1'' 0 0),
       TokenEncode (refresh_payload (AuthService_init example_env) ''u1'' 0 0 ''j''),
       LogRecord INFO ''User authenticated successfully''
         [(''trace_id'', LStr ''t1''), (''user_id'', LStr ''u1'')]],
      Inr \<lparr>data_user_id = ''u1'', data_user_email = ''a@x.com'', data_user_name = ''A'',
           data_access_token = ''access:u1'', data_refresh_token = ''refresh:u1'',
           data_token_type = ''bearer'', meta_trace_id = ''t1'', meta_timestamp = 0\<rparr>)"
  by (simp add: authenticate_user_def authenticate_user_body_def get_user_by_email_def
      verify_password_def create_access_token_def create_refresh_token_def access_payload_def
      refresh_payload_def io_defs Let_def example_env_def example_user_def example_encode_def
      AuthService_init_def)

lemma verify_token_effects:
  "fst (verify_token env svc credentials trace_id) = [TokenDecode credentials]"
  by (simp add: verify_token_def io_defs split: sum.splits exn.splits option.splits)

text \<open>
  The other ways out of \<^verbatim>\<open>verify_token\<close>: a library error other than expiry, and a
  payload whose \<^verbatim>\<open>type\<close> claim is not \<^verbatim>\<open>"access"\<close>, both end in \<^verbatim>\<open>AttributeError\<close>;
  a payload of type \<^verbatim>\<open>"access"\<close> with a \<^verbatim>\<open>sub\<close> claim gives that claim.
\<close>

lemma verify_token_outcomes:
  "jwt_decode env credentials (jwt_secret svc) [jwt_algorithm svc] = Inl e \<Longrightarrow>
     e \<noteq> ExpiredSignatureError \<Longrightarrow>
     snd (verify_token env svc credentials trace_id) = Inl (AttributeError ''JWTError'')"
  "jwt_decode env credentials (jwt_secret svc) [jwt_algorithm svc] = Inr payload \<Longrightarrow>
     map_of payload ''type'' \<noteq> Some (CStr ''access'') \<Longrightarrow>
     snd (verify_token env svc credentials trace_id) = Inl (AttributeError ''JWTError'')"
  "jwt_decode env credentials (jwt_secret svc) [jwt_algorithm svc] = Inr payload \<Longrightarrow>
     map_of payload ''type'' = Some (CStr ''access'') \<Longrightarrow>
     map_of payload ''sub'' = Some sub \<Longrightarrow>
     snd (verify_token env svc credentials trace_id) = Inr sub"
  by (simp_all add: verify_token_def io_defs split: exn.splits)

text \<open>
  Claim C4. Signature and expiry are checked inside \<^verbatim>\<open>jwt.decode\<close>, before
  \<^verbatim>\<open>verify_token\<close> looks at the \<^verbatim>\<open>type\<close> claim. For every token on which
  \<^verbatim>\<open>jwt.decode\<close> reports that the expiry has passed (\<^verbatim>\<open>ExpiredSignatureError\<close>),
  \<^verbatim>\<open>verify_token\<close> raises the \<^verbatim>\<open>AuthorizationError\<close> with code \<^verbatim>\<open>AUTH_003\<close> and not
  the one with code \<^verbatim>\<open>AUTH_004\<close>; no payload, hence no \<^verbatim>\<open>type\<close> claim, is read.
\<close>

theorem expired_token_is_AUTH_003:
  assumes "jwt_decode env credentials (jwt_secret svc) [jwt_algorithm svc] =
             Inl ExpiredSignatureError"
  shows "verify_token env svc credentials trace_id =
           ([TokenDecode credentials],
            Inl (AuthorizationError ''Token has expired'' ''AUTH_003'' trace_id)) \<and>
         snd (verify_token env svc credentials trace_id) \<noteq>
           Inl (AuthorizationError ''Invalid token'' ''AUTH_004'' trace_id)"
  using assms by (simp add: verify_token_def io_defs)

theorem expired_token_is_AUTH_003_witness:
  "snd (verify_token example_env (AuthService_init example_env) ''access:expired'' ''t1'') =
     Inl (AuthorizationError ''Token has expired'' ''AUTH_003'' ''t1'')"
  using expired_token_is_AUTH_003 [of example_env "''access:expired''"
      "AuthService_init example_env" "''t1''"]
  by (simp add: example_env_def example_decode_def)

lemma verify_token_expecting_access:
  "verify_token_expecting env svc ''access'' credentials trace_id =
     verify_token env svc credentials trace_id"
  by (simp add: verify_token_def verify_token_expecting_def)




text \<open>
  Claim C8. The first thing a call of the decorated \<^verbatim>\<open>login_endpoint\<close> does is the
  limiter's check for the client key. When the check returns \<^verbatim>\<open>False\<close>, the call raises
  \<^verbatim>\<open>HTTPException\<close> with status 429 and that check is all it did: no fetch from the user
  store, no password check, no token is encoded. \<^verbatim>\<open>verify_token\<close> only calls
  \<^verbatim>\<open>jwt.decode\<close>: it never consults the limiter.
\<close>

theorem rate_limiter_consulted_first:
  "take 1 (fst (snd (login_endpoint limiter env kwargs now clk jti))) =
     [RateLimitCheck (client_key kwargs)] \<and>
   (\<not> fst (check_rate_limit limiter (client_key kwargs) now) \<longrightarrow>
      login_endpoint limiter env kwargs now clk jti =
        (snd (check_rate_limit limiter (client_key kwargs) now),
         [RateLimitCheck (client_key kwargs)],
         Inl (HTTPException 429 ''Rate limit exceeded''))) \<and>
   fst (verify_token env svc credentials trace_id) = [TokenDecode credentials] \<and>
   RateLimitCheck k \<notin> set (fst (verify_token env svc credentials trace_id))"
  by (auto simp: login_endpoint_def Let_def io_defs verify_token_effects
      split: prod.splits sum.splits)

theorem rate_limiter_consulted_first_witness:
  "snd (login_endpoint
          (run_calls rate_limiter
             [(Some ''10.0.0.1'', 0), (Some ''10.0.0.1'', 1), (Some ''10.0.0.1'', 2),
              (Some ''10.0.0.1'', 3), (Some ''10.0.0.1'', 4)])
          example_env
          \<lparr>kw_email = ''a@x.com'', kw_password = ''pw1'', kw_trace_id = Some ''t1'',
           kw_client_ip = Some (Some ''10.0.0.1'')\<rparr> 5 (\<lambda>n. 5) ''j'') =
     ([RateLimitCheck (Some ''10.0.0.1'')], Inl (HTTPException 429 ''Rate limit exceeded''))"
  using rate_limiter_consulted_first
    [of "run_calls rate_limiter
             [(Some ''10.0.0.1'', 0), (Some ''10.0.0.1'', 1), (Some ''10.0.0.1'', 2),
              (Some ''10.0.0.1'', 3), (Some ''10.0.0.1'', 4)]"
        example_env
        "\<lparr>kw_email = ''a@x.com'', kw_password = ''pw1'', kw_trace_id = Some ''t1'',
           kw_client_ip = Some (Some ''10.0.0.1'')\<rparr>" 5 "\<lambda>n. 5" "''j''"]
  by (simp add: client_key_def check_rate_limit_def prune_def attempts_of_def Let_def
      timedelta_seconds_def rate_limiter_def RateLimiter_init_def)

text \<open>
  Claim C9. The payload that \<^verbatim>\<open>_create_access_token\<close> hands to \<^verbatim>\<open>jwt.encode\<close> has
  exactly the claims \<^verbatim>\<open>sub\<close>, \<^verbatim>\<open>iat\<close>, \<^verbatim>\<open>exp\<close> and \<^verbatim>\<open>type\<close>: \<^verbatim>\<open>sub\<close> is the
  subject id, \<^verbatim>\<open>iat\<close> is the clock reading taken for it, \<^verbatim>\<open>exp\<close> is the clock reading
  taken for it plus the access lifetime, \<^verbatim>\<open>type\<close> is \<^verbatim>\<open>"access"\<close>. The payload of
  \<^verbatim>\<open>_create_refresh_token\<close> has the same four claims, with the refresh lifetime and the
  type \<^verbatim>\<open>"refresh"\<close>, and in addition \<^verbatim>\<open>jti\<close>, the identifier drawn at this call. The
  configured access lifetime, 60 minutes, is less than the refresh lifetime, 7 days.
\<close>

theorem token_claims:
  "set (map fst (access_payload svc uid now_exp now_iat)) = {''sub'', ''iat'', ''exp'', ''type''} \<and>
   distinct (map fst (access_payload svc uid now_exp now_iat)) \<and>
   map_of (access_payload svc uid now_exp now_iat) ''sub'' = Some (CStr uid) \<and>
   map_of (access_payload svc uid now_exp now_iat) ''iat'' = Some (CTime now_iat) \<and>
   map_of (access_payload svc uid now_exp now_iat) ''exp'' =
     Some (CTime (now_exp + timedelta_minutes (access_token_expire_minutes svc))) \<and>
   map_of (access_payload svc uid now_exp now_iat) ''type'' = Some (CStr ''access'') \<and>
   create_access_token env svc uid now_exp now_iat =
     ([TokenEncode (access_payload svc uid now_exp now_iat)],
      jwt_encode env (access_payload svc uid now_exp now_iat) (jwt_secret svc) (jwt_algorithm svc)) \<and>
   set (map fst (refresh_payload svc uid now_exp now_iat jti)) =
     {''sub'', ''iat'', ''exp'', ''type'', ''jti''} \<and>
   distinct (map fst (refresh_payload svc uid now_exp now_iat jti)) \<and>
   map_of (refresh_payload svc uid now_exp now_iat jti) ''sub'' = Some (CStr uid) \<and>
   map_of (refresh_payload svc uid now_exp now_iat jti) ''iat'' = Some (CTime now_iat) \<and>
   map_of (refresh_payload svc uid now_exp now_iat jti) ''exp'' =
     Some (CTime (now_exp + timedelta_days (refresh_token_expire_days svc))) \<and>
   map_of (refresh_payload svc uid now_exp now_iat jti) ''type'' = Some (CStr ''refresh'') \<and>
   map_of (refresh_payload svc uid now_exp now_iat jti) ''jti'' = Some (CStr jti) \<and>
   create_refresh_token env svc uid now_exp now_iat jti =
     ([TokenEncode (refresh_payload svc uid now_exp now_iat jti)],
      jwt_encode env (refresh_payload svc uid now_exp now_iat jti) (jwt_secret svc)
        (jwt_algorithm svc)) \<and>
   timedelta_minutes (access_token_expire_minutes (AuthService_init env)) =
     timedelta_seconds 3600 \<and>
   timedelta_days (refresh_token_expire_days (AuthService_init env)) =
     timedelta_seconds 604800 \<and>
   timedelta_minutes (access_token_expire_minutes (AuthService_init env)) <
     timedelta_days (refresh_token_expire_days (AuthService_init env))"
  by (auto simp: access_payload_def refresh_payload_def create_access_token_def
      create_refresh_token_def io_call_def Let_def AuthService_init_def timedelta_minutes_def
      timedelta_days_def timedelta_seconds_def)

text \<open>
  Claim C10, as stated, has \<^verbatim>\<open>verify_token\<close> raise \<^verbatim>\<open>KeyError\<close> for a token that
  \<^verbatim>\<open>jwt.decode\<close> accepts and whose payload has the \<^verbatim>\<open>type\<close> claim \<^verbatim>\<open>"access"\<close> and no
  \<^verbatim>\<open>sub\<close> claim. In the example deployment the \<^verbatim>\<open>KeyError\<close> of \<^verbatim>\<open>payload["sub"]\<close>
  does not leave the function: it reaches the clause \<^verbatim>\<open>except jwt.JWTError\<close> and the
  call ends in \<^verbatim>\<open>AttributeError\<close>.
\<close>

theorem missing_sub_not_KeyError:
  "snd (verify_token example_env (AuthService_init example_env) ''access:nosub'' ''t1'') =
     Inl (AttributeError ''JWTError'') \<and>
   snd (verify_token example_env (AuthService_init example_env) ''access:nosub'' ''t1'') \<noteq>
     Inl (KeyError ''sub'')"
  by (simp add: verify_token_def io_defs example_env_def example_decode_def)

text \<open>
  Claim C10, amended. When \<^verbatim>\<open>jwt.decode\<close> accepts a token (its signature verifies and it
  has not expired) and the payload has the \<^verbatim>\<open>type\<close> claim \<^verbatim>\<open>"access"\<close> but no \<^verbatim>\<open>sub\<close>
  claim, \<^verbatim>\<open>verify_token\<close> returns no subject and raises an exception that is none of
  the \<^verbatim>\<open>AuthorizationError\<close>s \<^verbatim>\<open>AUTH_002\<close>, \<^verbatim>\<open>AUTH_003\<close>, \<^verbatim>\<open>AUTH_004\<close>.
\<close>

theorem missing_sub_escapes_taxonomy:
  assumes "jwt_decode env credentials (jwt_secret svc) [jwt_algorithm svc] = Inr payload"
    and "map_of payload ''type'' = Some (CStr ''access'')"
    and "map_of payload ''sub'' = None"
  shows "isl (snd (verify_token env svc credentials trace_id)) \<and>
         snd (verify_token env svc credentials trace_id) \<noteq>
           Inl (AuthorizationError msg code trace_id')"
  using assms by (simp add: verify_token_def io_defs)

theorem missing_sub_escapes_taxonomy_witness:
  "isl (snd (verify_token example_env (AuthService_init example_env) ''access:nosub'' ''t1'')) \<and>
   snd (verify_token example_env (AuthService_init example_env) ''access:nosub'' ''t1'') \<noteq>
     Inl (AuthorizationError ''Invalid token type'' ''AUTH_002'' ''t1'')"
  using missing_sub_escapes_taxonomy [of example_env "''access:nosub''"
      "AuthService_init example_env" "[(''exp'', CInt 3600), (''type'', CStr ''access'')]"
      "''t1''" "''Invalid token type''" "''AUTH_002''" "''t1''"]
  by (simp add: example_env_def example_decode_def)

end
